theory Spec2Isabelle
  imports Main "HOL-Library.AList"
begin

section \<open>Errors raised by the pipeline\<close>

text \<open>
  Every exception that can leave one of the modelled functions is a value of this type.
  \<open>ApiError\<close> is the \<open>Exception\<close> raised at line 61 of etl_pipeline.py for a status
  code other than 200; the others are the exceptions of Python, requests, json and
  sqlite3 that the source does not catch.
\<close>

datatype error =
    KeyError string
  | TypeError
  | ValueError
  | ApiError int
  | RequestException
  | JSONDecodeError
  | OSError
  | OperationalError
  | IntegrityError

section \<open>Data frames and series\<close>

text \<open>
  A pandas DataFrame is its column labels and its rows. Rows are typed records; the
  column labels decide whether \<open>df["c"]\<close> raises KeyError. A Series (one column) is the
  list of its cells, a cell of an object column being \<open>None\<close> for NaN.
\<close>

record 'r frame =
  columns :: "string list"
  rows :: "'r list"

definition getitem :: "'r frame \<Rightarrow> string \<Rightarrow> ('r \<Rightarrow> 'a) \<Rightarrow> error + 'a list" where
  "getitem df c sel = (if c \<in> set (columns df) then Inr (map sel (rows df)) else Inl (KeyError c))"

definition add_column :: "string list \<Rightarrow> string \<Rightarrow> string list" where
  "add_column cols c = (if c \<in> set cols then cols else cols @ [c])"

text \<open>
  Python's \<open>str.lower\<close> on the ASCII letters; every other character is left as it is.
\<close>

definition lower_char :: "char \<Rightarrow> char" where
  "lower_char c =
     (let n = (of_char c :: nat) in if 65 \<le> n \<and> n \<le> 90 then char_of (n + 32) else c)"

definition lower :: "string \<Rightarrow> string" where
  "lower s = map lower_char s"

text \<open>\<open>pat in s\<close>: the pattern occurs as a contiguous substring.\<close>

fun starts_with :: "string \<Rightarrow> string \<Rightarrow> bool" where
  "starts_with [] s = True"
| "starts_with (p # ps) [] = False"
| "starts_with (p # ps) (c # cs) = (p = c \<and> starts_with ps cs)"

fun contains :: "string \<Rightarrow> string \<Rightarrow> bool" where
  "contains pat [] = (pat = [])"
| "contains pat (c # cs) = (starts_with pat (c # cs) \<or> contains pat cs)"

definition str_lower :: "string option list \<Rightarrow> string option list" where
  "str_lower col = map (map_option lower) col"

text \<open>\<open>col.str.contains(pat, na=False)\<close>: case-sensitive, NaN gives False.\<close>

definition str_contains :: "string \<Rightarrow> string option list \<Rightarrow> bool list" where
  "str_contains pat col = map (\<lambda>c. case c of None \<Rightarrow> False | Some s \<Rightarrow> contains pat s) col"

definition isin :: "string list \<Rightarrow> string option list \<Rightarrow> bool list" where
  "isin vals col = map (\<lambda>c. case c of None \<Rightarrow> False | Some s \<Rightarrow> s \<in> set vals) col"

definition series_not :: "bool list \<Rightarrow> bool list" where
  "series_not cond = map Not cond"

text \<open>\<open>df.loc[cond, "c"] = v\<close>: the cells where the condition holds become \<open>v\<close>.\<close>

definition loc_assign :: "bool list \<Rightarrow> 'a \<Rightarrow> 'a list \<Rightarrow> 'a list" where
  "loc_assign cond v col = map (\<lambda>(m, c). if m then v else c) (zip cond col)"

text \<open>\<open>col > n\<close>: a comparison with NaN is False.\<close>

definition series_gt :: "int option list \<Rightarrow> int \<Rightarrow> bool list" where
  "series_gt col n = map (\<lambda>c. case c of None \<Rightarrow> False | Some d \<Rightarrow> n < d) col"

section \<open>Station records\<close>

text \<open>
  The dictionary \<open>station_info\<close> built at lines 81-91 of etl_pipeline.py, one per row of
  the extracted frame. \<open>'c\<close> is the type of a coordinate cell (a float in the source,
  or whatever else the API sent) and \<open>'t\<close> the type of the \<open>last_updated\<close> cell: a
  string after extraction, a timestamp (or NaT) after line 214.
\<close>

record ('c, 't) station_info =
  id' :: int
  name :: string
  latitude :: 'c
  longitude :: 'c
  address :: string
  operator :: "string option"
  last_updated :: 't

record ('c, 't) normalized = "('c, 't) station_info" +
  operator_clean :: "string option"
  city :: string
  days_since_update :: "int option"
  is_offline :: bool

definition station_columns :: "string list" where
  "station_columns =
     [''id'', ''name'', ''latitude'', ''longitude'', ''address'', ''operator'', ''last_updated'']"

text \<open>
  \<open>pd.DataFrame(all_stations)\<close> (line 108): the labels are the keys of the dictionaries,
  so the frame of an empty list has no rows and no columns.
\<close>

definition DataFrame :: "('c, 't) station_info list \<Rightarrow> ('c, 't) station_info frame" where
  "DataFrame all_stations =
     \<lparr>columns = (if all_stations = [] then [] else station_columns), rows = all_stations\<rparr>"

section \<open>Transform, step 1: duplicates\<close>

fun keep_first :: "('r \<Rightarrow> int) \<Rightarrow> int list \<Rightarrow> 'r list \<Rightarrow> 'r list" where
  "keep_first key seen [] = []"
| "keep_first key seen (r # rs) =
     (if key r \<in> set seen then keep_first key seen rs
      else r # keep_first key (key r # seen) rs)"

text \<open>
  \<open>df.drop_duplicates(subset=["id"])\<close>: pandas returns a copy of an empty frame (one
  with no rows or no columns) at once; otherwise a missing label is a KeyError and the
  first row of each id stays.
\<close>

definition drop_duplicates ::
  "('c, 't) station_info frame \<Rightarrow> error + ('c, 't) station_info frame" where
  "drop_duplicates df =
     (if rows df = [] \<or> columns df = [] then Inr df
      else if ''id'' \<notin> set (columns df) then Inl (KeyError ''id'')
      else Inr (df\<lparr>rows := keep_first id' [] (rows df)\<rparr>))"

section \<open>Transform, step 2: operator names\<close>

text \<open>Lines 134-146 of etl_pipeline.py, statement by statement, on the operator column.\<close>

definition standardize_operators :: "string option list \<Rightarrow> string option list" where
  "standardize_operators operator_col =
     (let c0 = str_lower operator_col;
          c1 = loc_assign (str_contains ''tesla'' c0) (Some ''Tesla'') c0;
          c2 = loc_assign (str_contains ''bp'' c1) (Some ''BP'') c1;
          c3 = loc_assign (str_contains ''shell'' c2) (Some ''Shell'') c2
      in loc_assign (series_not (isin [''tesla'', ''bp'', ''shell''] c3)) (Some ''Other'') c3)"

section \<open>Transform, step 3: the geocoding cache\<close>

text \<open>
  The cache file \<open>geocoding_cache.json\<close> is absent, present but not parseable, or holds
  a JSON object, written here as its key/value pairs in file order. The world a
  transform pass runs in is that file, whether it can be opened for writing, and the
  log of the queries sent to the reverse-geocoding service.
\<close>

datatype cache_file = Missing | Corrupt | Stored "(string \<times> string) list"

record world =
  cache_file :: cache_file
  writable :: bool
  lookups :: "string list"

text \<open>
  What \<open>geolocator.reverse\<close> gives: an exception, \<open>None\<close>, or a location whose \<open>raw\<close>
  dictionary has an \<open>"address"\<close> entry or not.
\<close>

datatype geo_response = GeoRaises | GeoNone | GeoLocation "(string \<times> string) list option"

text \<open>
  The collaborators of a pass. A coordinate cell holds whatever the listing API sent:
  a number, or \<open>None\<close> for a JSON null, or a string. \<open>fmt3\<close> is the format \<open>{x:.3f}\<close>
  of a cell, which raises (TypeError for \<open>None\<close>, ValueError for a string) on a cell
  that is not a number, and \<open>str\<close> the format \<open>{x}\<close>, which never does; \<open>reverse\<close> is
  the geocoding service, a function of the query (within one pass a query is sent at
  most once, its key being cached afterwards); \<open>to_datetime\<close> is
  \<open>pd.to_datetime(col, errors='coerce')\<close>, which parses a cell in the context of its
  column and gives \<open>None\<close> (NaT) for what it cannot parse; \<open>now\<close> is
  \<open>pd.Timestamp.now()\<close>. Timestamps are in nanoseconds.
\<close>

record 'c env =
  fmt3 :: "'c \<Rightarrow> error + string"
  str :: "'c \<Rightarrow> string"
  reverse :: "string \<Rightarrow> geo_response"
  to_datetime :: "string list \<Rightarrow> string \<Rightarrow> int option"
  now :: int

text \<open>
  A Python dictionary is an association list with distinct keys in insertion order;
  \<open>d[k] = v\<close> is \<open>AList.update k v d\<close> and \<open>len(d)\<close> its length. \<open>json.load\<close> builds the
  dictionary pair by pair.
\<close>

definition json_load :: "(string \<times> string) list \<Rightarrow> (string \<times> string) list" where
  "json_load pairs = foldl (\<lambda>d (k, v). AList.update k v d) [] pairs"

text \<open>Lines 152-158: load or create the cache.\<close>

definition load_cache :: "world \<Rightarrow> error + (string \<times> string) list" where
  "load_cache w =
     (case cache_file w of
        Missing \<Rightarrow> Inr []
      | Corrupt \<Rightarrow> Inl JSONDecodeError
      | Stored pairs \<Rightarrow> Inr (json_load pairs))"

text \<open>Lines 192-195: the handler of \<open>except Exception\<close>.\<close>

definition except_handler ::
  "string \<Rightarrow> (string \<times> string) list \<Rightarrow> world
     \<Rightarrow> (error + string) \<times> (string \<times> string) list \<times> world" where
  "except_handler key geocode_cache w =
     (Inr ''Unknown'', AList.update key ''Unknown'' geocode_cache, w)"

text \<open>
  Line 166, the cache key: the two coordinates are formatted in turn, and the first
  that cannot be formatted raises. Line 174, the query sent to the service.
\<close>

definition cache_key :: "'c env \<Rightarrow> 'c \<Rightarrow> 'c \<Rightarrow> error + string" where
  "cache_key env lat lon =
     (case fmt3 env lat of
        Inl e \<Rightarrow> Inl e
      | Inr a \<Rightarrow>
          (case fmt3 env lon of
             Inl e \<Rightarrow> Inl e
           | Inr b \<Rightarrow> Inr (a @ '','' @ b)))"

definition query_of :: "'c env \<Rightarrow> 'c \<Rightarrow> 'c \<Rightarrow> string" where
  "query_of env lat lon = str env lat @ '', '' @ str env lon"

text \<open>
  Lines 164-195. The key is made and the cache is tested before \<open>try\<close>, so an
  exception of the key format leaves the function, with the cache and the world as
  they were. Everything after the cache test runs inside \<open>try\<close>, the periodic save
  included: whatever is raised there, a save that cannot open the file too, ends in the
  handler.
\<close>

definition get_city_cached ::
  "'c env \<Rightarrow> 'c \<Rightarrow> 'c \<Rightarrow> (string \<times> string) list \<Rightarrow> world
     \<Rightarrow> (error + string) \<times> (string \<times> string) list \<times> world" where
  "get_city_cached env lat lon geocode_cache w =
     (case cache_key env lat lon of
        Inl e \<Rightarrow> (Inl e, geocode_cache, w)
      | Inr key \<Rightarrow>
     (case map_of geocode_cache key of
        Some v \<Rightarrow> (Inr v, geocode_cache, w)
      | None \<Rightarrow>
          (let w1 = w\<lparr>lookups := lookups w @ [query_of env lat lon]\<rparr> in
           case reverse env (query_of env lat lon) of
             GeoRaises \<Rightarrow> except_handler key geocode_cache w1
           | GeoNone \<Rightarrow> except_handler key geocode_cache w1
           | GeoLocation None \<Rightarrow> except_handler key geocode_cache w1
           | GeoLocation (Some addr) \<Rightarrow>
               (let found = (case map_of addr ''city'' of
                               Some c \<Rightarrow> c
                             | None \<Rightarrow> (case map_of addr ''town'' of
                                          Some t \<Rightarrow> t
                                        | None \<Rightarrow> ''Unknown''));
                    cache1 = AList.update key found geocode_cache in
                if length cache1 mod 50 = 0 then
                  (if writable w1 then (Inr found, cache1, w1\<lparr>cache_file := Stored cache1\<rparr>)
                   else except_handler key cache1 w1)
                else (Inr found, cache1, w1)))))"

text \<open>
  Line 200: \<open>df.apply(..., axis=1)\<close> calls the resolver row by row, in order, and ends
  at the first call that raises. (On a frame with columns and no rows pandas may call
  the function once on a row of NaN to find the type of the result; the pipeline has
  no such frame, and the model makes no call for it.)
\<close>

fun apply_get_city ::
  "'c env \<Rightarrow> ('c, 't) station_info list \<Rightarrow> (string \<times> string) list \<Rightarrow> world
     \<Rightarrow> (error + string list) \<times> (string \<times> string) list \<times> world" where
  "apply_get_city env [] geocode_cache w = (Inr [], geocode_cache, w)"
| "apply_get_city env (r # rs) geocode_cache w =
     (case get_city_cached env (latitude r) (longitude r) geocode_cache w of
        (Inl e, cache1, w1) \<Rightarrow> (Inl e, cache1, w1)
      | (Inr c, cache1, w1) \<Rightarrow>
          (case apply_get_city env rs cache1 w1 of
             (Inl e, cache2, w2) \<Rightarrow> (Inl e, cache2, w2)
           | (Inr cs, cache2, w2) \<Rightarrow> (Inr (c # cs), cache2, w2)))"

section \<open>Transform, step 4: offline flags, and the whole pass\<close>

definition ns_per_day :: int where
  "ns_per_day = 86400000000000"

text \<open>Line 220: \<open>(today - col).dt.days\<close>, whole days rounded down, NaT giving NaN.\<close>

definition days_since :: "int \<Rightarrow> int option list \<Rightarrow> int option list" where
  "days_since today col = map (map_option (\<lambda>t. (today - t) div ns_per_day)) col"

definition assemble ::
  "('c, string) station_info list \<Rightarrow> string option list \<Rightarrow> string list \<Rightarrow> int option list
     \<Rightarrow> int option list \<Rightarrow> bool list \<Rightarrow> ('c, int option) normalized list" where
  "assemble rs ocs cities stamps days flags =
     map (\<lambda>(r, oc, c, t, d, f).
            \<lparr>id' = id' r, name = name r, latitude = latitude r, longitude = longitude r,
             address = address r, operator = operator r, last_updated = t,
             operator_clean = oc, city = c, days_since_update = d, is_offline = f\<rparr>)
         (zip rs (zip ocs (zip cities (zip stamps (zip days flags)))))"

text \<open>
  \<open>transform_stations\<close>, lines 116-228. The result is the value returned or the
  exception raised, with the world as the pass leaves it.
\<close>

definition transform_stations ::
  "'c env \<Rightarrow> world \<Rightarrow> ('c, string) station_info frame
     \<Rightarrow> (error + ('c, int option) normalized frame) \<times> world" where
  "transform_stations env w df =
     (case drop_duplicates df of
        Inl e \<Rightarrow> (Inl e, w)
      | Inr df1 \<Rightarrow>
     (case getitem df1 ''operator'' operator of
        Inl e \<Rightarrow> (Inl e, w)
      | Inr operator_col \<Rightarrow>
     (case load_cache w of
        Inl e \<Rightarrow> (Inl e, w)
      | Inr geocode_cache \<Rightarrow>
     if rows df1 \<noteq> [] \<and> ''latitude'' \<notin> set (columns df1) then (Inl (KeyError ''latitude''), w)
     else if rows df1 \<noteq> [] \<and> ''longitude'' \<notin> set (columns df1) then (Inl (KeyError ''longitude''), w)
     else
     (case apply_get_city env (rows df1) geocode_cache w of
        (Inl e, cache1, w1) \<Rightarrow> (Inl e, w1)
      | (Inr cities, cache1, w1) \<Rightarrow>
     if \<not> writable w1 then (Inl OSError, w1)
     else
     (case getitem df1 ''last_updated'' last_updated of
        Inl e \<Rightarrow> (Inl e, w1\<lparr>cache_file := Stored cache1\<rparr>)
      | Inr col \<Rightarrow>
          (let stamps = map (to_datetime env col) col;
               days = days_since (now env) stamps;
               flags = series_gt days 90
           in (Inr \<lparr>columns = foldl add_column (columns df1)
                                [''operator_clean'', ''city'', ''days_since_update'', ''is_offline''],
                    rows = assemble (rows df1) (standardize_operators operator_col) cities
                             stamps days flags\<rparr>,
               w1\<lparr>cache_file := Stored cache1\<rparr>)))))))"

section \<open>Extract\<close>

text \<open>
  A station object of the listing API, as far as lines 81-91 read it. A field is \<open>None\<close>
  when the object has no such key; for \<open>OperatorInfo\<close> the inner option is its \<open>Title\<close>.
\<close>

record 'c address_info =
  Title :: "string option"
  Latitude :: "'c option"
  Longitude :: "'c option"
  AddressLine1 :: "string option"

record 'c raw_station =
  ID :: "int option"
  AddressInfo :: "'c address_info option"
  OperatorInfo :: "string option option"
  DateLastConfirmed :: "string option"
  DateLastStatusUpdate :: "string option"

text \<open>Python's truth value of \<open>station.get(k)\<close>: \<open>None\<close> and the empty string are false.\<close>

definition truthy :: "string option \<Rightarrow> bool" where
  "truthy v = (case v of None \<Rightarrow> False | Some x \<Rightarrow> x \<noteq> [])"

text \<open>
  Lines 81-91. The subscripts raise KeyError for a missing key, in the order the
  dictionary display evaluates them; the \<open>get\<close> calls fall back to \<open>"Unknown"\<close>.
\<close>

definition station_info_of :: "'c raw_station \<Rightarrow> error + ('c, string) station_info" where
  "station_info_of station =
     (case ID station of
        None \<Rightarrow> Inl (KeyError ''ID'')
      | Some i \<Rightarrow>
     (case AddressInfo station of
        None \<Rightarrow> Inl (KeyError ''AddressInfo'')
      | Some a \<Rightarrow>
     (case Title a of
        None \<Rightarrow> Inl (KeyError ''Title'')
      | Some title \<Rightarrow>
     (case Latitude a of
        None \<Rightarrow> Inl (KeyError ''Latitude'')
      | Some lat \<Rightarrow>
     (case Longitude a of
        None \<Rightarrow> Inl (KeyError ''Longitude'')
      | Some lon \<Rightarrow>
     (case AddressLine1 a of
        None \<Rightarrow> Inl (KeyError ''AddressLine1'')
      | Some line \<Rightarrow>
          Inr \<lparr>id' = i, name = title, latitude = lat, longitude = lon, address = line,
               operator = Some (case OperatorInfo station of
                                  Some (Some t) \<Rightarrow> t
                                | _ \<Rightarrow> ''Unknown''),
               last_updated =
                 (if truthy (DateLastConfirmed station) then the (DateLastConfirmed station)
                  else if truthy (DateLastStatusUpdate station)
                    then the (DateLastStatusUpdate station)
                  else ''Unknown'')\<rparr>))))))"

text \<open>Lines 79-94: the loop over one page; the first exception ends it.\<close>

fun map_stations :: "'c raw_station list \<Rightarrow> error + ('c, string) station_info list" where
  "map_stations [] = Inr []"
| "map_stations (station # data) =
     (case station_info_of station of
        Inl e \<Rightarrow> Inl e
      | Inr station_info \<Rightarrow>
          (case map_stations data of
             Inl e \<Rightarrow> Inl e
           | Inr infos \<Rightarrow> Inr (station_info # infos)))"

text \<open>
  What \<open>requests.get\<close> gives: an exception, or a response with its status code and its
  text, which is empty, not JSON, or a JSON array of station objects.
\<close>

datatype 'c body = NoText | NotJson | Json "'c raw_station list"

datatype 'c http = Raises | Response int "'c body"

text \<open>
  The loop of lines 39-105. \<open>get n skip\<close> answers the \<open>n\<close>-th request, sent with offset
  \<open>skip\<close>. The loop has no bound of its own, so the function is partial: \<open>None\<close> is a
  run that never leaves the loop. \<open>reqs\<close> logs the offset of every request sent.
  \<open>max_pages\<close> is tested for truth first (\<open>None\<close> and 0 are false). The pause of
  one second between two requests (line 105) changes no result and is left out.
\<close>

partial_function (option) fetch_pages ::
  "(nat \<Rightarrow> nat \<Rightarrow> 'c http) \<Rightarrow> int option \<Rightarrow> nat \<Rightarrow> nat \<Rightarrow> ('c, string) station_info list
     \<Rightarrow> nat list \<Rightarrow> (error + ('c, string) station_info list \<times> nat list) option" where
  "fetch_pages get max_pages page skip all_stations reqs =
     (case get (page + 1) skip of
        Raises \<Rightarrow> Some (Inl RequestException)
      | Response status_code content \<Rightarrow>
          if status_code \<noteq> 200 then Some (Inl (ApiError status_code))
          else
          (case content of
             NoText \<Rightarrow> Some (Inr (all_stations, reqs @ [skip]))
           | NotJson \<Rightarrow> Some (Inl JSONDecodeError)
           | Json data \<Rightarrow>
               if length data = 0 then Some (Inr (all_stations, reqs @ [skip]))
               else
               (case map_stations data of
                  Inl e \<Rightarrow> Some (Inl e)
                | Inr infos \<Rightarrow>
                    if (case max_pages of
                          None \<Rightarrow> False
                        | Some m \<Rightarrow> m \<noteq> 0 \<and> m \<le> int (page + 1))
                    then Some (Inr (all_stations @ infos, reqs @ [skip]))
                    else fetch_pages get max_pages (page + 1) (skip + 500)
                           (all_stations @ infos) (reqs @ [skip]))))"

text \<open>
  \<open>extract_charging_stations\<close>, lines 17-110: the frame returned and the offsets of the
  requests made, or the exception raised.
\<close>

definition extract_charging_stations ::
  "(nat \<Rightarrow> nat \<Rightarrow> 'c http) \<Rightarrow> int option
     \<Rightarrow> (error + ('c, string) station_info frame \<times> nat list) option" where
  "extract_charging_stations get max_pages =
     (case fetch_pages get max_pages 0 0 [] [] of
        None \<Rightarrow> None
      | Some (Inl e) \<Rightarrow> Some (Inl e)
      | Some (Inr (all_stations, reqs)) \<Rightarrow> Some (Inr (DataFrame all_stations, reqs)))"

section \<open>Load\<close>

text \<open>
  The table \<open>stations\<close> of database.py has \<open>id\<close> as its primary key: it is a map from
  ids to rows. A connection of Python's sqlite3 opens a transaction at the first
  DELETE or INSERT and keeps the changes to itself until \<open>commit\<close>: \<open>durable\<close> is what
  the database file holds, \<open>txn\<close> what the connection sees.
\<close>

type_synonym 'c table = "int \<rightharpoonup> ('c, int option) normalized"

record 'c conn =
  durable :: "'c table"
  txn :: "'c table"

definition commit :: "'c conn \<Rightarrow> 'c conn" where
  "commit c = c\<lparr>durable := txn c\<rparr>"

definition rollback :: "'c conn \<Rightarrow> 'c conn" where
  "rollback c = c\<lparr>txn := durable c\<rparr>"

text \<open>The columns of the table created by \<open>init_db\<close>, lines 31-44 of database.py.\<close>

definition table_columns :: "string list" where
  "table_columns =
     [''id'', ''name'', ''latitude'', ''longitude'', ''address'', ''operator_clean'', ''city'',
      ''is_offline'', ''days_since_update'', ''last_updated'']"

text \<open>
  Line 81: \<open>DELETE FROM stations WHERE id IN (?,...,?)\<close> with one parameter per id. SQLite
  refuses a statement with more parameters than its limit (\<open>max_variables\<close>) and accepts
  an empty list after IN, which matches no row.
\<close>

definition execute_delete :: "nat \<Rightarrow> int list \<Rightarrow> 'c conn \<Rightarrow> error + 'c conn" where
  "execute_delete max_variables ids c =
     (if max_variables < length ids then Inl OperationalError
      else Inr (c\<lparr>txn := txn c |` (- set ids)\<rparr>))"

fun insert_rows :: "('c, int option) normalized list \<Rightarrow> 'c table \<Rightarrow> 'c table option" where
  "insert_rows [] t = Some t"
| "insert_rows (r # rs) t =
     (case t (id' r) of
        Some old \<Rightarrow> None
      | None \<Rightarrow> insert_rows rs (t(id' r \<mapsto> r)))"

text \<open>
  Line 85: \<open>df.to_sql("stations", conn, if_exists="append", index=False)\<close>. A frame
  with no rows inserts nothing. Otherwise pandas inserts the rows under the frame's own
  column labels inside one transaction: a label the table does not have, or an id that
  is already a key, fails the INSERT, and pandas rolls the connection back before it
  passes the exception on; when all rows are in, it commits. A row is stored as the
  frame carries it.
\<close>

definition to_sql ::
  "('c, int option) normalized frame \<Rightarrow> 'c conn \<Rightarrow> (error + unit) \<times> 'c conn" where
  "to_sql df c =
     (if rows df = [] then (Inr (), c)
      else if \<not> set (columns df) \<subseteq> set table_columns then (Inl OperationalError, rollback c)
      else
      (case insert_rows (rows df) (txn c) of
         None \<Rightarrow> (Inl IntegrityError, rollback c)
       | Some t \<Rightarrow> (Inr (), commit (c\<lparr>txn := t\<rparr>))))"

text \<open>\<open>load_to_db\<close>, lines 66-96 of database.py (the prints left out).\<close>

definition load_to_db ::
  "nat \<Rightarrow> ('c, int option) normalized frame \<Rightarrow> 'c conn \<Rightarrow> (error + unit) \<times> 'c conn" where
  "load_to_db max_variables df c =
     (case getitem df ''id'' id' of
        Inl e \<Rightarrow> (Inl e, c)
      | Inr ids \<Rightarrow>
     (case execute_delete max_variables ids c of
        Inl e \<Rightarrow> (Inl e, c)
      | Inr c1 \<Rightarrow>
     (case to_sql df c1 of
        (Inl e, c2) \<Rightarrow> (Inl e, c2)
      | (Inr u, c2) \<Rightarrow> (Inr u, commit c2))))"

section \<open>Auxiliary notions and test fixtures\<close>

text \<open>Two worlds that differ at most in the cache file.\<close>

definition same_but_file :: "world \<Rightarrow> world \<Rightarrow> bool" where
  "same_but_file w1 w2 = (writable w1 = writable w2 \<and> lookups w1 = lookups w2)"

text \<open>The table after a list of rows is written into it, each under its id.\<close>

primrec put_rows :: "('c, int option) normalized list \<Rightarrow> 'c table \<Rightarrow> 'c table" where
  "put_rows [] t = t"
| "put_rows (r # rs) t = put_rows rs (t(id' r \<mapsto> r))"

text \<open>
  The fixtures the concrete runs below use. A coordinate cell is written as Python
  prints it: a number as its decimal text with three decimals, and \<open>None\<close> as
  \<open>None\<close>. So the format \<open>{x}\<close> is the identity, and the format \<open>{x:.3f}\<close> is the
  identity on numbers and raises TypeError for \<open>None\<close>. The demo geocoder knows one
  place and raises for every other query; the demo clock stands five nanoseconds after
  the start of day 100.
\<close>

definition demo_env :: "string env" where
  "demo_env =
     \<lparr>fmt3 = (\<lambda>x. if x = ''None'' then Inl TypeError else Inr x), str = (\<lambda>x. x),
      reverse = (\<lambda>q. if q = ''1.200, 3.400'' then GeoLocation (Some [(''city'', ''Shanghai'')])
                     else GeoRaises),
      to_datetime = (\<lambda>col s. if s = ''1970-01-11'' then Some (10 * ns_per_day)
                              else if s = ''1970-01-10'' then Some (9 * ns_per_day) else None),
      now = 100 * ns_per_day + 5\<rparr>"

definition demo_world :: world where
  "demo_world = \<lparr>cache_file = Missing, writable = True, lookups = []\<rparr>"

definition demo_station :: "int \<Rightarrow> string \<Rightarrow> string \<Rightarrow> (string, string) station_info" where
  "demo_station i op upd =
     \<lparr>id' = i, name = ''Station'', latitude = ''1.200'', longitude = ''3.400'',
      address = ''Road 1'', operator = Some op, last_updated = upd\<rparr>"

definition demo_row ::
  "int \<Rightarrow> string \<Rightarrow> int option \<Rightarrow> int option \<Rightarrow> bool \<Rightarrow> (string, int option) normalized" where
  "demo_row i op stamp days flag =
     \<lparr>id' = i, name = ''Station'', latitude = ''1.200'', longitude = ''3.400'',
      address = ''Road 1'', operator = Some op, last_updated = stamp,
      operator_clean = Some ''Other'', city = ''Shanghai'', days_since_update = days,
      is_offline = flag\<rparr>"

definition demo_frame :: "(string, string) station_info frame" where
  "demo_frame =
     DataFrame [demo_station 1 ''Tesla BP Supercharger'' ''1970-01-11'',
                demo_station 2 ''Unknown Co'' ''1970-01-10'',
                demo_station 3 ''Shell'' ''Unknown'']"

definition demo_out :: "(string, int option) normalized frame" where
  "demo_out =
     \<lparr>columns = station_columns @ [''operator_clean'', ''city'', ''days_since_update'', ''is_offline''],
      rows = [demo_row 1 ''Tesla BP Supercharger'' (Some (10 * ns_per_day)) (Some 90) False,
              demo_row 2 ''Unknown Co'' (Some (9 * ns_per_day)) (Some 91) True,
              demo_row 3 ''Shell'' None None False]\<rparr>"

text \<open>
  An outage of the geocoding service: every query raises. Fifty stations with ids 0 to
  49 at fifty places, latitudes 0.010 to 0.059 and longitude 0.000.
\<close>

definition outage_env :: "string env" where
  "outage_env = demo_env\<lparr>reverse := (\<lambda>q. GeoRaises)\<rparr>"

definition fifty_latitudes :: "string list" where
  "fifty_latitudes = map (\<lambda>(b, c). [CHR ''0'', CHR ''.'', CHR ''0'', b, c])
                       (List.product ''12345'' ''0123456789'')"

definition outage_stations :: "(string, string) station_info list" where
  "outage_stations =
     map (\<lambda>(i, lat). (demo_station (int i) ''Shell'' ''Unknown'')
                        \<lparr>latitude := lat, longitude := ''0.000''\<rparr>)
       (zip [0..<50] fifty_latitudes)"

text \<open>
  A stub of the listing API that answers the first two requests with a page of 500
  stations and every later request with an empty JSON array.
\<close>

definition demo_raw :: "string raw_station" where
  "demo_raw =
     \<lparr>ID = Some 7,
      AddressInfo = Some \<lparr>Title = Some ''Station'', Latitude = Some ''1.200'',
                          Longitude = Some ''3.400'', AddressLine1 = Some ''Road 1''\<rparr>,
      OperatorInfo = Some (Some ''Tesla BP Supercharger''),
      DateLastConfirmed = None,
      DateLastStatusUpdate = Some ''1970-01-11''\<rparr>"

definition demo_get :: "nat \<Rightarrow> nat \<Rightarrow> string http" where
  "demo_get n skip =
     (if n \<le> 2 then Response 200 (Json (replicate 500 demo_raw)) else Response 200 (Json []))"

text \<open>
  A database that holds an older row for station 1 and a row for station 9, seen
  through a connection with nothing uncommitted; the frame the demo pass returns with
  the column labels of the table instead of its own; and a frame with those labels and
  no rows. 32766 is the parameter limit of current SQLite builds.
\<close>

definition demo_conn :: "string conn" where
  "demo_conn =
     \<lparr>durable = [1 \<mapsto> demo_row 1 ''Old Operator'' None None False,
                 9 \<mapsto> demo_row 9 ''Shell'' None None False],
      txn = [1 \<mapsto> demo_row 1 ''Old Operator'' None None False,
             9 \<mapsto> demo_row 9 ''Shell'' None None False]\<rparr>"

definition loadable_batch :: "(string, int option) normalized frame" where
  "loadable_batch = demo_out\<lparr>columns := table_columns\<rparr>"

definition empty_batch :: "(string, int option) normalized frame" where
  "empty_batch = \<lparr>columns = table_columns, rows = []\<rparr>"

section \<open>Operator classification\<close>

lemma loc_assign_maps:
  "loc_assign (map p xs) v (map g xs) = map (\<lambda>x. if p x then v else g x) xs"
  by (induction xs) (simp_all add: loc_assign_def)

lemma starts_with_refl: "starts_with s s"
  by (induction s) simp_all

lemma contains_refl: "contains s s"
  by (cases s) (simp_all add: starts_with_refl)

text \<open>
  Whatever the operator cell holds, line 146 turns it into \<open>"Other"\<close>: after lines
  137-143 a cell is \<open>"Tesla"\<close>, \<open>"BP"\<close>, \<open>"Shell"\<close>, NaN, or a lower-case string that
  contains none of \<open>tesla\<close>, \<open>bp\<close>, \<open>shell\<close>, and none of these is one of the lower-case
  names the \<open>isin\<close> test of line 146 looks for.
\<close>

lemma standardize_operators_other:
  "standardize_operators col = map (\<lambda>c. Some ''Other'') col"
proof -
  have names: "contains ''tesla'' ''tesla''" "contains ''bp'' ''bp''" "contains ''shell'' ''shell''"
    by (rule contains_refl)+
  have cell: "(if \<not> (case (if (case (if (case (if (case map_option lower c of None \<Rightarrow> False
                    | Some s \<Rightarrow> contains ''tesla'' s) then Some ''Tesla'' else map_option lower c)
                  of None \<Rightarrow> False | Some s \<Rightarrow> contains ''bp'' s) then Some ''BP''
                else (if (case map_option lower c of None \<Rightarrow> False
                    | Some s \<Rightarrow> contains ''tesla'' s) then Some ''Tesla'' else map_option lower c))
              of None \<Rightarrow> False | Some s \<Rightarrow> contains ''shell'' s) then Some ''Shell''
            else (if (case (if (case map_option lower c of None \<Rightarrow> False
                    | Some s \<Rightarrow> contains ''tesla'' s) then Some ''Tesla'' else map_option lower c)
                  of None \<Rightarrow> False | Some s \<Rightarrow> contains ''bp'' s) then Some ''BP''
                else (if (case map_option lower c of None \<Rightarrow> False
                    | Some s \<Rightarrow> contains ''tesla'' s) then Some ''Tesla'' else map_option lower c)))
          of None \<Rightarrow> False | Some s \<Rightarrow> s \<in> set [''tesla'', ''bp'', ''shell''])
        then Some ''Other'' else X) = Some ''Other''" for c :: "string option" and X
  proof (cases c)
    case None
    then show ?thesis by simp
  next
    case (Some x)
    show ?thesis
      using names Some
      by (cases "contains ''tesla'' (lower x)"; cases "contains ''bp'' (lower x)";
          cases "contains ''shell'' (lower x)") (auto simp del: contains.simps)
  qed
  show ?thesis
    unfolding standardize_operators_def Let_def str_contains_def isin_def series_not_def
      str_lower_def
    by (simp only: map_map o_def loc_assign_maps cell)
qed

lemma transform_operator_clean:
  assumes "transform_stations env w df = (Inr out, w')" and "r \<in> set (rows out)"
  shows "operator_clean r = Some ''Other''"
proof -
  from assms obtain rs col cities stamps days flags where
    "r \<in> set (assemble rs (standardize_operators col) cities stamps days flags)"
    by (auto simp: transform_stations_def Let_def split: sum.splits prod.splits if_splits)
  then obtain x oc c t d f where
    r: "operator_clean r = oc"
    and z: "(x, oc, c, t, d, f) \<in>
              set (zip rs (zip (standardize_operators col) (zip cities (zip stamps (zip days flags)))))"
    by (auto simp: assemble_def)
  from z have "oc \<in> set (standardize_operators col)"
    by (meson set_zip_leftD set_zip_rightD)
  with r show ?thesis
    by (auto simp: standardize_operators_other)
qed

section \<open>The transform pass on concrete input\<close>

text \<open>
  A pass over three stations at one place, run by \<open>"Tesla BP Supercharger"\<close>,
  \<open>"Unknown Co"\<close> and \<open>"Shell"\<close>, last confirmed 90 days ago, 91 days ago and never
  (\<open>"Unknown"\<close>), starting without a cache file.
\<close>

lemma demo_pass:
  "transform_stations demo_env demo_world demo_frame =
   (Inr demo_out,
    \<lparr>cache_file = Stored [(''1.200,3.400'', ''Shanghai'')], writable = True,
     lookups = [''1.200, 3.400'']\<rparr>)"
  by (simp add: transform_stations_def drop_duplicates_def DataFrame_def getitem_def
      station_columns_def load_cache_def get_city_cached_def demo_env_def
      cache_key_def query_of_def demo_frame_def demo_out_def
      days_since_def ns_per_day_def series_gt_def assemble_def add_column_def
      standardize_operators_other demo_station_def demo_world_def demo_row_def Let_def)

text \<open>
  C1. The claim: the operator class is one of Tesla, BP, Shell, Other by case-insensitive
  substring match in the order Tesla, BP, Shell, and \<open>"Tesla BP Supercharger"\<close> is
  classified \<open>Tesla\<close>. The code gives \<open>Other\<close> for that operator string, on the column
  alone and in the pass over the demo frame, whose first station has it: line 137
  writes \<open>"Tesla"\<close>, and line 146 overwrites every cell that is not one of the
  lower-case strings \<open>tesla\<close>, \<open>bp\<close>, \<open>shell\<close>.
\<close>

theorem tesla_bp_supercharger_is_other:
  "standardize_operators [Some ''Tesla BP Supercharger''] = [Some ''Other''] \<and>
   fst (transform_stations demo_env demo_world demo_frame) = Inr demo_out \<and>
   map operator (rows demo_out) =
     [Some ''Tesla BP Supercharger'', Some ''Unknown Co'', Some ''Shell''] \<and>
   map operator_clean (rows demo_out) = [Some ''Other'', Some ''Other'', Some ''Other'']"
proof -
  have "standardize_operators [Some ''Tesla BP Supercharger''] = [Some ''Other'']"
    by (simp add: standardize_operators_other)
  moreover have "fst (transform_stations demo_env demo_world demo_frame) = Inr demo_out"
    by (simp add: demo_pass)
  moreover have "map operator (rows demo_out) =
      [Some ''Tesla BP Supercharger'', Some ''Unknown Co'', Some ''Shell'']"
    by (simp add: demo_out_def demo_row_def)
  moreover have "map operator_clean (rows demo_out) =
      [Some ''Other'', Some ''Other'', Some ''Other'']"
    by (simp add: demo_out_def demo_row_def)
  ultimately show ?thesis by simp
qed

section \<open>Empty input\<close>

text \<open>
  C8. The claim: \<open>transform_stations\<close> applied to an empty input returns an empty
  output and raises no error. The empty batch the pipeline produces is the frame
  \<open>pd.DataFrame([])\<close> that \<open>extract_charging_stations\<close> returns when the first page is
  empty; it has no columns, and line 134 (\<open>df["operator"]\<close>) raises KeyError on it,
  whatever the collaborators and the cache file are.
\<close>

theorem transform_of_empty_extract_raises:
  "transform_stations env w (DataFrame []) = (Inl (KeyError ''operator''), w)"
  by (simp add: transform_stations_def DataFrame_def drop_duplicates_def getitem_def)

section \<open>Loading the cache\<close>

text \<open>The resolver never reads the cache file: it only writes it.\<close>

lemma get_city_cached_file:
  assumes "same_but_file w1 w2"
  shows "case get_city_cached env lat lon cache w1 of (c1, k1, v1) \<Rightarrow>
         case get_city_cached env lat lon cache w2 of (c2, k2, v2) \<Rightarrow>
           c1 = c2 \<and> k1 = k2 \<and> same_but_file v1 v2"
  using assms
  by (auto simp: get_city_cached_def except_handler_def same_but_file_def Let_def
      split: sum.splits option.splits geo_response.splits)

lemma apply_get_city_file:
  assumes "same_but_file w1 w2"
  shows "case apply_get_city env rs cache w1 of (c1, k1, v1) \<Rightarrow>
         case apply_get_city env rs cache w2 of (c2, k2, v2) \<Rightarrow>
           c1 = c2 \<and> k1 = k2 \<and> same_but_file v1 v2"
  using assms
proof (induction rs arbitrary: cache w1 w2)
  case Nil
  then show ?case by simp
next
  case (Cons r rs)
  obtain c1 k1 v1 where a: "get_city_cached env (latitude r) (longitude r) cache w1 = (c1, k1, v1)"
    by (cases "get_city_cached env (latitude r) (longitude r) cache w1") auto
  obtain c2 k2 v2 where b: "get_city_cached env (latitude r) (longitude r) cache w2 = (c2, k2, v2)"
    by (cases "get_city_cached env (latitude r) (longitude r) cache w2") auto
  from get_city_cached_file[OF Cons.prems, of env "latitude r" "longitude r" cache] a b
  have e: "c1 = c2" "k1 = k2" "same_but_file v1 v2" by auto
  from Cons.IH[OF e(3), of k1] show ?case
    by (auto simp: a b e split: prod.splits sum.splits)
qed

lemma transform_file_irrelevant:
  assumes "load_cache w1 = load_cache w2" "same_but_file w1 w2"
  shows "fst (transform_stations env w1 df) = fst (transform_stations env w2 df)"
proof (cases "drop_duplicates df")
  case (Inl e)
  then show ?thesis by (simp add: transform_stations_def)
next
  case df1: (Inr df1)
  show ?thesis
  proof (cases "getitem df1 ''operator'' operator")
    case (Inl e)
    then show ?thesis by (simp add: transform_stations_def df1)
  next
    case col: (Inr col)
    show ?thesis
    proof (cases "load_cache w2")
      case (Inl e)
      then show ?thesis using assms(1) by (simp add: transform_stations_def df1 col)
    next
      case k: (Inr k)
      obtain c1 k1 v1 where a: "apply_get_city env (rows df1) k w1 = (c1, k1, v1)"
        by (cases "apply_get_city env (rows df1) k w1") auto
      obtain c2 k2 v2 where b: "apply_get_city env (rows df1) k w2 = (c2, k2, v2)"
        by (cases "apply_get_city env (rows df1) k w2") auto
      from apply_get_city_file[OF assms(2), of env "rows df1" k] a b
      have e: "c1 = c2" "k1 = k2" "writable v1 = writable v2"
        by (auto simp: same_but_file_def)
      have w: "writable w1 = writable w2"
        using assms(2) by (simp add: same_but_file_def)
      show ?thesis
      proof (cases "rows df1 = []")
        case True
        then show ?thesis
          using assms(1)
          by (simp add: transform_stations_def df1 col k w Let_def split: sum.splits)
      next
        case False
        then show ?thesis
          using assms(1)
          by (simp add: transform_stations_def df1 col k a b e Let_def split: sum.splits)
      qed
    qed
  qed
qed

text \<open>
  C9. A missing cache file is an empty cache and not an error: the load gives the
  empty dictionary, and the pass returns what it returns when the file holds the empty
  JSON object. A cache file that does not parse is fatal: the load raises, and so does
  the pass on every frame that reaches the load (one with the \<open>id\<close> and \<open>operator\<close>
  columns), leaving the file as it was.
\<close>

theorem cache_load_missing_or_corrupt:
  "(cache_file w = Missing \<longrightarrow>
      load_cache w = Inr [] \<and>
      fst (transform_stations env w df) =
        fst (transform_stations env (w\<lparr>cache_file := Stored []\<rparr>) df)) \<and>
   (cache_file w = Corrupt \<longrightarrow>
      load_cache w = Inl JSONDecodeError \<and>
      (''id'' \<in> set (columns df) \<and> ''operator'' \<in> set (columns df) \<longrightarrow>
         transform_stations env w df = (Inl JSONDecodeError, w)))"
proof (intro conjI impI)
  assume m: "cache_file w = Missing"
  then show "load_cache w = Inr []" by (simp add: load_cache_def)
  have "load_cache w = load_cache (w\<lparr>cache_file := Stored []\<rparr>)"
    using m by (simp add: load_cache_def json_load_def)
  moreover have "same_but_file w (w\<lparr>cache_file := Stored []\<rparr>)"
    by (simp add: same_but_file_def)
  ultimately show "fst (transform_stations env w df) =
      fst (transform_stations env (w\<lparr>cache_file := Stored []\<rparr>) df)"
    by (rule transform_file_irrelevant)
next
  assume c: "cache_file w = Corrupt"
  then show l: "load_cache w = Inl JSONDecodeError" by (simp add: load_cache_def)
  assume "''id'' \<in> set (columns df) \<and> ''operator'' \<in> set (columns df)"
  then show "transform_stations env w df = (Inl JSONDecodeError, w)"
    by (simp add: transform_stations_def drop_duplicates_def getitem_def l)
qed

theorem cache_load_missing_or_corrupt_witness:
  "cache_file demo_world = Missing \<and>
   load_cache demo_world = Inr [] \<and>
   fst (transform_stations demo_env (demo_world\<lparr>cache_file := Stored []\<rparr>) demo_frame) =
     Inr demo_out \<and>
   cache_file (demo_world\<lparr>cache_file := Corrupt\<rparr>) = Corrupt \<and>
   ''id'' \<in> set (columns demo_frame) \<and> ''operator'' \<in> set (columns demo_frame) \<and>
   load_cache (demo_world\<lparr>cache_file := Corrupt\<rparr>) = Inl JSONDecodeError \<and>
   transform_stations demo_env (demo_world\<lparr>cache_file := Corrupt\<rparr>) demo_frame =
     (Inl JSONDecodeError, demo_world\<lparr>cache_file := Corrupt\<rparr>)"
proof -
  have m: "cache_file demo_world = Missing"
    by (simp add: demo_world_def)
  have c: "cache_file (demo_world\<lparr>cache_file := Corrupt\<rparr>) = Corrupt"
    by simp
  have cols: "''id'' \<in> set (columns demo_frame) \<and> ''operator'' \<in> set (columns demo_frame)"
    by (simp add: demo_frame_def DataFrame_def station_columns_def)
  show ?thesis
    using cache_load_missing_or_corrupt[of demo_world demo_env demo_frame]
      cache_load_missing_or_corrupt[of "demo_world\<lparr>cache_file := Corrupt\<rparr>" demo_env demo_frame]
      m c cols demo_pass
    by simp
qed

section \<open>Offline flags\<close>

lemma zip_same_map: "(d, f) \<in> set (zip xs (map g xs)) \<Longrightarrow> f = g d"
  by (induction xs) auto

lemma assemble_flags:
  assumes "r \<in> set (assemble rs ocs cities stamps days (series_gt days n))"
  shows "is_offline r = (case days_since_update r of None \<Rightarrow> False | Some d \<Rightarrow> n < d)"
proof -
  from assms obtain x oc c t d f where
    r: "is_offline r = f" "days_since_update r = d"
    and z: "(x, oc, c, t, d, f) \<in>
              set (zip rs (zip ocs (zip cities (zip stamps (zip days (series_gt days n))))))"
    by (auto simp: assemble_def)
  from z have "(d, f) \<in> set (zip days (series_gt days n))"
    by (meson set_zip_rightD)
  then have "f = (case d of None \<Rightarrow> False | Some d \<Rightarrow> n < d)"
    unfolding series_gt_def by (rule zip_same_map)
  with r show ?thesis by simp
qed

text \<open>
  C4. In every row a pass returns, \<open>is_offline\<close> holds exactly when
  \<open>days_since_update\<close> is defined and greater than 90. So 90 days is not offline, 91
  days is, and a row whose \<open>last_updated\<close> did not parse (no \<open>days_since_update\<close>) is
  not: the witness runs the pass on one row of each kind.
\<close>

theorem offline_iff_stale:
  assumes "transform_stations env w df = (Inr out, w')" and "r \<in> set (rows out)"
  shows "is_offline r \<longleftrightarrow> (\<exists>d. days_since_update r = Some d \<and> 90 < d)"
proof -
  from assms obtain rs ocs cities stamps days where
    "r \<in> set (assemble rs ocs cities stamps days (series_gt days 90))"
    by (auto simp: transform_stations_def Let_def split: sum.splits prod.splits if_splits)
  from assemble_flags[OF this] show ?thesis
    by (cases "days_since_update r") auto
qed

theorem offline_iff_stale_witness:
  "fst (transform_stations demo_env demo_world demo_frame) = Inr demo_out \<and>
   map days_since_update (rows demo_out) = [Some 90, Some 91, None] \<and>
   map is_offline (rows demo_out) = [False, True, False]"
proof -
  have rows: "rows demo_out =
      [demo_row 1 ''Tesla BP Supercharger'' (Some (10 * ns_per_day)) (Some 90) False,
       demo_row 2 ''Unknown Co'' (Some (9 * ns_per_day)) (Some 91) True,
       demo_row 3 ''Shell'' None None False]"
    by (simp add: demo_out_def)
  have days: "map days_since_update (rows demo_out) = [Some 90, Some 91, None]"
    by (simp add: rows demo_row_def)
  have "\<forall>r \<in> set (rows demo_out). is_offline r \<longleftrightarrow> (\<exists>d. days_since_update r = Some d \<and> 90 < d)"
    using offline_iff_stale[OF demo_pass] by blast
  then have "map is_offline (rows demo_out) = [False, True, False]"
    by (simp add: rows demo_row_def)
  with days demo_pass show ?thesis by simp
qed

section \<open>The resolver\<close>

lemma get_city_cached_raises:
  "cache_key env lat lon = Inl e \<Longrightarrow> get_city_cached env lat lon cache w = (Inl e, cache, w)"
  by (simp add: get_city_cached_def)







section \<open>Flushing the cache during a pass\<close>

text \<open>
  While the service is down every lookup ends in the handler of lines 192-195, which
  stores \<open>"Unknown"\<close> and returns without the size test of line 186: the pass adds one
  entry per new place and never writes the file.
\<close>

lemma update_fresh: "k \<notin> fst ` set al \<Longrightarrow> AList.update k v al = al @ [(k, v)]"
  by (induction al) auto

lemma outage_step:
  assumes "\<forall>q. reverse env q = GeoRaises" "cache_key env lat lon = Inr k"
    "k \<notin> fst ` set cache"
  shows "get_city_cached env lat lon cache w =
           (Inr ''Unknown'', cache @ [(k, ''Unknown'')],
            w\<lparr>lookups := lookups w @ [query_of env lat lon]\<rparr>)"
proof -
  from assms(3) have "map_of cache k = None"
    by (simp add: map_of_eq_None_iff)
  with assms show ?thesis
    by (simp add: get_city_cached_def except_handler_def update_fresh)
qed

lemma outage_apply:
  assumes "\<forall>q. reverse env q = GeoRaises"
    and "\<forall>r \<in> set rs. cache_key env (latitude r) (longitude r) = Inr (kf r)"
    and "distinct (map kf rs)"
    and "\<forall>r \<in> set rs. kf r \<notin> fst ` set cache"
  shows "apply_get_city env rs cache w =
           (Inr (map (\<lambda>r. ''Unknown'') rs),
            cache @ map (\<lambda>r. (kf r, ''Unknown'')) rs,
            w\<lparr>lookups := lookups w @ map (\<lambda>r. query_of env (latitude r) (longitude r)) rs\<rparr>)"
  using assms(2,3,4)
proof (induction rs arbitrary: cache w)
  case Nil
  then show ?case by simp
next
  case (Cons r rs)
  have key: "cache_key env (latitude r) (longitude r) = Inr (kf r)"
    using Cons.prems(1) by simp
  have fresh: "kf r \<notin> fst ` set cache"
    using Cons.prems(3) by simp
  have step: "get_city_cached env (latitude r) (longitude r) cache w =
           (Inr ''Unknown'', cache @ [(kf r, ''Unknown'')],
            w\<lparr>lookups := lookups w @ [query_of env (latitude r) (longitude r)]\<rparr>)"
    using assms(1) key fresh by (rule outage_step)
  have keys: "\<forall>x \<in> set rs. cache_key env (latitude x) (longitude x) = Inr (kf x)"
    using Cons.prems(1) by simp
  have d: "distinct (map kf rs)"
    using Cons.prems(2) by simp
  have later: "kf r \<notin> kf ` set rs"
    using Cons.prems(2) by simp
  have f: "\<forall>x \<in> set rs. kf x \<notin> fst ` set (cache @ [(kf r, ''Unknown'')])"
  proof
    fix x assume x: "x \<in> set rs"
    then have "kf x \<noteq> kf r"
      using later by (metis imageI)
    moreover have "kf x \<notin> fst ` set cache"
      using Cons.prems(3) x by simp
    ultimately show "kf x \<notin> fst ` set (cache @ [(kf r, ''Unknown'')])"
      by simp
  qed
  have rest: "apply_get_city env rs (cache @ [(kf r, ''Unknown'')])
        (w\<lparr>lookups := lookups w @ [query_of env (latitude r) (longitude r)]\<rparr>) =
      (Inr (map (\<lambda>r. ''Unknown'') rs),
       (cache @ [(kf r, ''Unknown'')]) @ map (\<lambda>r. (kf r, ''Unknown'')) rs,
       w\<lparr>lookups := (lookups w @ [query_of env (latitude r) (longitude r)]) @
          map (\<lambda>r. query_of env (latitude r) (longitude r)) rs\<rparr>)"
    using Cons.IH[OF keys d f] by simp
  show ?case
    by (simp add: step rest)
qed

lemma fifty_latitudes_distinct: "distinct fifty_latitudes"
  unfolding fifty_latitudes_def
  by (rule distinct_map[THEN iffD2], rule conjI, rule distinct_product)
     (auto simp: inj_on_def)

lemma fifty_latitudes_length: "length fifty_latitudes = 50"
  by (simp add: fifty_latitudes_def)

lemma outage_latitudes: "map latitude outage_stations = fifty_latitudes"
proof -
  have "map latitude outage_stations = map snd (zip [0..<50] fifty_latitudes)"
    by (simp add: outage_stations_def o_def split_def)
  then show ?thesis
    by (simp add: fifty_latitudes_length)
qed

lemma fifty_latitudes_numbers: "lat \<in> set fifty_latitudes \<Longrightarrow> lat \<noteq> ''None''"
  by (auto simp: fifty_latitudes_def)

lemma outage_keys:
  assumes "r \<in> set outage_stations"
  shows "cache_key outage_env (latitude r) (longitude r) = Inr (latitude r @ '',0.000'')"
proof -
  from assms have "latitude r \<in> set (map latitude outage_stations)"
    by simp
  then have "latitude r \<noteq> ''None''"
    unfolding outage_latitudes by (rule fifty_latitudes_numbers)
  moreover from assms have "longitude r = ''0.000''"
    by (auto simp: outage_stations_def)
  ultimately show ?thesis
    by (simp add: cache_key_def outage_env_def demo_env_def)
qed

text \<open>
  C6. The claim: the cache is flushed after every 50 new entries, so that fewer than 50
  are ever unflushed. The pass over fifty stations at fifty new places, started with no
  cache file while the service is down, holds 50 entries when \<open>df.apply\<close> (line 200)
  returns, and the cache file is still missing: the save of lines 186-189 sits on the
  success path only.
\<close>

theorem outage_leaves_fifty_entries_unflushed:
  "length (fst (snd (apply_get_city outage_env outage_stations [] demo_world))) = 50 \<and>
   cache_file (snd (snd (apply_get_city outage_env outage_stations [] demo_world))) = Missing"
proof -
  have down: "\<forall>q. reverse outage_env q = GeoRaises"
    by (simp add: outage_env_def)
  have k: "\<forall>r \<in> set outage_stations.
      cache_key outage_env (latitude r) (longitude r) = Inr (latitude r @ '',0.000'')"
    using outage_keys by blast
  have "distinct (map latitude outage_stations)"
    unfolding outage_latitudes by (rule fifty_latitudes_distinct)
  then have d: "distinct (map (\<lambda>r. latitude r @ '',0.000'') outage_stations)"
    by (simp add: distinct_map inj_on_def)
  have f: "\<forall>r \<in> set outage_stations. latitude r @ '',0.000'' \<notin> fst ` set []"
    by simp
  have n: "length outage_stations = 50"
    by (simp add: outage_stations_def fifty_latitudes_length)
  show ?thesis
    unfolding outage_apply[OF down k d f]
    by (simp add: n demo_world_def)
qed

section \<open>Pagination\<close>

lemma map_stations_length: "map_stations data = Inr infos \<Longrightarrow> length infos = length data"
  by (induction data arbitrary: infos) (auto split: sum.splits)

lemma map_stations_replicate:
  "station_info_of s = Inr i \<Longrightarrow> map_stations (replicate n s) = Inr (replicate n i)"
  by (induction n) simp_all

text \<open>
  C7. When the listing API answers the first three requests with 500 records, 500
  records and an empty array (all with status 200, the records having the fields lines
  82-86 read), and \<open>max_pages\<close> does not stop the loop before the third request
  (it is \<open>None\<close> as in the pipeline, 0, or more than 2), the extraction returns: it makes
  three requests, at the offsets 0, 500 and 1000, and yields a frame of 1000 rows. The
  empty page ends the loop as a result, not as an error.
\<close>

theorem pagination_500_500_0:
  assumes p1: "get 1 0 = Response 200 (Json page1)" "length page1 = 500"
      "map_stations page1 = Inr infos1"
    and p2: "get 2 500 = Response 200 (Json page2)" "length page2 = 500"
      "map_stations page2 = Inr infos2"
    and p3: "get 3 1000 = Response 200 (Json [])"
    and mp: "max_pages = None \<or> max_pages = Some 0 \<or> (\<exists>m. max_pages = Some m \<and> 2 < m)"
  shows "extract_charging_stations get max_pages =
           Some (Inr (DataFrame (infos1 @ infos2), [0, 500, 1000])) \<and>
         length (rows (DataFrame (infos1 @ infos2))) = 1000"
proof -
  have q1: "get (Suc 0) 0 = Response 200 (Json page1)"
    using p1(1) by simp
  have q2: "get (Suc (Suc 0)) 500 = Response 200 (Json page2)"
    using p2(1) by (simp add: numeral_2_eq_2)
  have q3: "get (Suc (Suc (Suc 0))) 1000 = Response 200 (Json [])"
    using p3 by (simp add: numeral_3_eq_3)
  have cap: "\<not> (case max_pages of None \<Rightarrow> False | Some m \<Rightarrow> m \<noteq> 0 \<and> m \<le> int n)"
    if "n \<le> 2" for n
    using mp that by (auto split: option.splits)
  have third: "fetch_pages get max_pages (Suc (Suc 0)) 1000 (infos1 @ infos2) [0, 500] =
      Some (Inr (infos1 @ infos2, [0, 500, 1000]))"
    by (subst fetch_pages.simps) (simp add: q3)
  have second: "fetch_pages get max_pages (Suc 0) 500 infos1 [0] =
      fetch_pages get max_pages (Suc (Suc 0)) 1000 (infos1 @ infos2) [0, 500]"
    by (subst fetch_pages.simps) (simp add: q2 p2 cap)
  have first: "fetch_pages get max_pages 0 0 [] [] =
      fetch_pages get max_pages (Suc 0) 500 infos1 [0]"
    by (subst fetch_pages.simps) (simp add: q1 p1 cap)
  have "length infos1 = 500" "length infos2 = 500"
    using p1 p2 by (simp_all add: map_stations_length)
  then show ?thesis
    by (simp add: extract_charging_stations_def first second third DataFrame_def)
qed

lemma demo_info: "station_info_of demo_raw = Inr (demo_station 7 ''Tesla BP Supercharger'' ''1970-01-11'')"
  by (simp add: station_info_of_def demo_raw_def demo_station_def truthy_def)

theorem pagination_500_500_0_witness:
  "extract_charging_stations demo_get None =
     Some (Inr (DataFrame (replicate 1000 (demo_station 7 ''Tesla BP Supercharger'' ''1970-01-11'')),
                [0, 500, 1000])) \<and>
   length (rows (DataFrame (replicate 1000 (demo_station 7 ''Tesla BP Supercharger'' ''1970-01-11'')))) = 1000"
proof -
  let ?i = "demo_station 7 ''Tesla BP Supercharger'' ''1970-01-11''"
  have a: "demo_get 1 0 = Response 200 (Json (replicate 500 demo_raw))"
    and b: "demo_get 2 500 = Response 200 (Json (replicate 500 demo_raw))"
    and c: "demo_get 3 1000 = Response 200 (Json [])"
    by (simp_all add: demo_get_def)
  have l: "length (replicate 500 demo_raw) = 500" by simp
  have m: "map_stations (replicate 500 demo_raw) = Inr (replicate 500 ?i)"
    using demo_info by (rule map_stations_replicate)
  have n: "(None :: int option) = None \<or> (None :: int option) = Some 0 \<or>
             (\<exists>m. (None :: int option) = Some m \<and> 2 < m)"
    by simp
  have r: "replicate 500 ?i @ replicate 500 ?i = replicate 1000 ?i"
    by (simp add: replicate_add[symmetric])
  from pagination_500_500_0[OF a l m b l m c n] show ?thesis
    by (simp only: r)
qed

section \<open>Loading into the database\<close>

text \<open>
  \<open>insert_rows\<close> succeeds exactly when the ids of the rows are distinct and new to the
  table, and then it is \<open>put_rows\<close>.
\<close>

lemma insert_rows_eq:
  "insert_rows rs t =
     (if distinct (map id' rs) \<and> (\<forall>r \<in> set rs. t (id' r) = None)
      then Some (put_rows rs t) else None)"
proof (induction rs arbitrary: t)
  case Nil
  then show ?case by simp
next
  case (Cons r rs)
  show ?case
  proof (cases "t (id' r)")
    case (Some old)
    then show ?thesis by auto
  next
    case None
    have "(\<forall>x \<in> set rs. (t(id' r \<mapsto> r)) (id' x) = None) \<longleftrightarrow>
          id' r \<notin> id' ` set rs \<and> (\<forall>x \<in> set rs. t (id' x) = None)"
      by (auto simp: image_iff)
    with None show ?thesis
      by (simp add: Cons.IH del: fun_upd_apply)
  qed
qed

lemma put_rows_outside: "i \<notin> id' ` set rs \<Longrightarrow> put_rows rs t i = t i"
  by (induction rs arbitrary: t) auto

lemma put_rows_inside:
  "distinct (map id' rs) \<Longrightarrow> r \<in> set rs \<Longrightarrow> put_rows rs t (id' r) = Some r"
proof (induction rs arbitrary: t)
  case Nil
  then show ?case by simp
next
  case (Cons a rs)
  show ?case
  proof (cases "r = a")
    case True
    have "put_rows rs (t(id' a \<mapsto> a)) (id' a) = (t(id' a \<mapsto> a)) (id' a)"
      using Cons.prems(1) by (intro put_rows_outside) simp
    then show ?thesis
      using True by simp
  next
    case False
    then show ?thesis
      using Cons by auto
  qed
qed

lemma put_rows_restrict:
  "put_rows rs t |` (- id' ` set rs) = t |` (- id' ` set rs)"
  by (rule ext) (simp add: restrict_map_def put_rows_outside)

lemma put_rows_base:
  assumes e: "t |` (- id' ` set rs) = u |` (- id' ` set rs)" and d: "distinct (map id' rs)"
  shows "put_rows rs t = put_rows rs u"
proof (rule ext)
  fix i
  show "put_rows rs t i = put_rows rs u i"
  proof (cases "i \<in> id' ` set rs")
    case True
    then obtain r where "r \<in> set rs" "i = id' r" by auto
    then show ?thesis using d by (simp add: put_rows_inside)
  next
    case False
    from e have "(t |` (- id' ` set rs)) i = (u |` (- id' ` set rs)) i" by simp
    with False show ?thesis by (simp add: put_rows_outside restrict_map_def)
  qed
qed

lemma restrict_all: "m |` UNIV = m"
  by (simp add: restrict_map_def)

text \<open>
  The outcomes of \<open>load_to_db\<close>, in the order the code reaches them: no \<open>id\<close> column
  (line 76), too many parameters for the DELETE (line 81), nothing to insert, a column
  the table does not have, an id twice in the batch (line 85), and success.
\<close>

lemma load_to_db_cases:
  "load_to_db mv df c =
     (if ''id'' \<notin> set (columns df) then (Inl (KeyError ''id''), c)
      else if mv < length (rows df) then (Inl OperationalError, c)
      else if rows df = [] then (Inr (), commit c)
      else if \<not> set (columns df) \<subseteq> set table_columns then (Inl OperationalError, rollback c)
      else if \<not> distinct (map id' (rows df)) then (Inl IntegrityError, rollback c)
      else (Inr (), c\<lparr>durable := put_rows (rows df) (txn c |` (- id' ` set (rows df))),
                       txn := put_rows (rows df) (txn c |` (- id' ` set (rows df)))\<rparr>))"
proof -
  have none: "\<forall>r \<in> set (rows df). (txn c |` (- id' ` set (rows df))) (id' r) = None"
    by simp
  show ?thesis
    using none
    by (simp add: load_to_db_def getitem_def execute_delete_def to_sql_def insert_rows_eq
      commit_def rollback_def restrict_all)
qed


text \<open>
  C2. Loading a batch a second time, on the connection the first load leaves, gives
  the result of the first load and leaves the connection and the database exactly as
  the first load left them: the same rows under the same ids, with the same fields.
  This holds for every frame, every connection and every parameter limit, also when
  the load fails.
\<close>

theorem load_twice_is_load_once:
  "load_to_db mv df (snd (load_to_db mv df c)) = load_to_db mv df c"
proof -
  let ?ids = "id' ` set (rows df)"
  let ?T = "put_rows (rows df) (txn c |` (- ?ids))"
  have again: "put_rows (rows df) (?T |` (- ?ids)) = ?T"
    if "distinct (map id' (rows df))"
  proof (rule put_rows_base[OF _ that])
    show "?T |` (- ?ids) |` (- ?ids) = txn c |` (- ?ids) |` (- ?ids)"
      by (simp add: put_rows_restrict)
  qed
  show ?thesis
    by (simp add: load_to_db_cases[of mv df] commit_def rollback_def again)
qed

text \<open>
  C3. The delete and the insert are applied together or not at all. If \<open>load_to_db\<close>
  raises, the database file holds what it held before, and a connection that had
  nothing uncommitted is as it was: sqlite3 keeps the DELETE of line 81 in the open
  transaction, and pandas rolls that transaction back when the INSERT fails. If it
  returns, everything is committed, every row of the batch is stored under its id
  (replacing the row that had the id before) and every other row is as the connection
  saw it before.
\<close>

theorem load_is_atomic:
  "(case load_to_db mv df c of
      (Inl e, c') \<Rightarrow> durable c' = durable c \<and> (txn c = durable c \<longrightarrow> c' = c)
    | (Inr u, c') \<Rightarrow>
        durable c' = txn c' \<and>
        (\<forall>r \<in> set (rows df). durable c' (id' r) = Some r) \<and>
        (\<forall>i. i \<notin> id' ` set (rows df) \<longrightarrow> durable c' i = txn c i))"
  by (simp add: load_to_db_cases[of mv df] commit_def rollback_def put_rows_inside
      put_rows_outside)

text \<open>
  C10. The claim: \<open>load_to_db\<close> with a batch of zero records raises an error, because
  the storage rejects the DELETE with an empty IN list. SQLite accepts an empty IN
  list. What the code does with a frame of no rows: with an \<open>id\<close> column the DELETE
  matches nothing, nothing is inserted and the load returns after the commit, the
  stored rows being those the connection saw; without an \<open>id\<close> column (the frame
  \<open>pd.DataFrame([])\<close>) line 76 raises KeyError before any statement is sent.
\<close>

theorem load_of_no_rows:
  "rows df = [] \<Longrightarrow>
   load_to_db mv df c =
     (if ''id'' \<in> set (columns df) then (Inr (), commit c) else (Inl (KeyError ''id''), c))"
  by (simp add: load_to_db_cases[of mv df])

text \<open>
  The claim of C10 fails on the frame with the columns of the table and no rows: the
  load returns, and the connection and the database are unchanged.
\<close>

theorem empty_batch_loads_without_error:
  "load_to_db 32766 empty_batch demo_conn = (Inr (), demo_conn)"
  by (simp add: load_to_db_cases empty_batch_def table_columns_def commit_def demo_conn_def)


text \<open>The concrete loads: the demo batch into the demo database.\<close>

lemma loadable_batch_facts:
  "''id'' \<in> set (columns loadable_batch)"
  "set (columns loadable_batch) \<subseteq> set table_columns"
  "rows loadable_batch =
     [demo_row 1 ''Tesla BP Supercharger'' (Some (10 * ns_per_day)) (Some 90) False,
      demo_row 2 ''Unknown Co'' (Some (9 * ns_per_day)) (Some 91) True,
      demo_row 3 ''Shell'' None None False]"
  "map id' (rows loadable_batch) = [1, 2, 3]"
  by (simp_all add: loadable_batch_def demo_out_def table_columns_def demo_row_def)

lemma demo_load:
  "load_to_db 32766 loadable_batch demo_conn =
     (Inr (),
      \<lparr>durable = [9 \<mapsto> demo_row 9 ''Shell'' None None False,
                  1 \<mapsto> demo_row 1 ''Tesla BP Supercharger'' (Some (10 * ns_per_day)) (Some 90) False,
                  2 \<mapsto> demo_row 2 ''Unknown Co'' (Some (9 * ns_per_day)) (Some 91) True,
                  3 \<mapsto> demo_row 3 ''Shell'' None None False],
       txn = [9 \<mapsto> demo_row 9 ''Shell'' None None False,
              1 \<mapsto> demo_row 1 ''Tesla BP Supercharger'' (Some (10 * ns_per_day)) (Some 90) False,
              2 \<mapsto> demo_row 2 ''Unknown Co'' (Some (9 * ns_per_day)) (Some 91) True,
              3 \<mapsto> demo_row 3 ''Shell'' None None False]\<rparr>)"
proof -
  have ids: "id' (demo_row i op s d f) = i" for i op s d f
    by (simp add: demo_row_def)
  have base: "txn demo_conn |` (- id' ` set (rows loadable_batch)) =
      [9 \<mapsto> demo_row 9 ''Shell'' None None False]"
    by (rule ext) (simp add: loadable_batch_facts(3) ids demo_conn_def restrict_map_def)
  show ?thesis
    unfolding load_to_db_cases base
    by (simp add: loadable_batch_facts ids demo_conn_def)
qed

theorem load_twice_is_load_once_witness:
  "load_to_db 32766 loadable_batch (snd (load_to_db 32766 loadable_batch demo_conn)) =
     load_to_db 32766 loadable_batch demo_conn \<and>
   fst (load_to_db 32766 loadable_batch demo_conn) = Inr () \<and>
   durable (snd (load_to_db 32766 loadable_batch demo_conn)) 1 =
     Some (demo_row 1 ''Tesla BP Supercharger'' (Some (10 * ns_per_day)) (Some 90) False) \<and>
   durable (snd (load_to_db 32766 loadable_batch demo_conn)) 9 =
     Some (demo_row 9 ''Shell'' None None False)"
  using load_twice_is_load_once[of 32766 loadable_batch demo_conn]
  by (simp add: demo_load)

theorem load_is_atomic_witness:
  "load_to_db 32766 demo_out demo_conn = (Inl OperationalError, demo_conn) \<and>
   fst (load_to_db 32766 loadable_batch demo_conn) = Inr () \<and>
   durable (snd (load_to_db 32766 loadable_batch demo_conn)) =
     txn (snd (load_to_db 32766 loadable_batch demo_conn)) \<and>
   durable (snd (load_to_db 32766 loadable_batch demo_conn)) 1 =
     Some (demo_row 1 ''Tesla BP Supercharger'' (Some (10 * ns_per_day)) (Some 90) False) \<and>
   durable (snd (load_to_db 32766 loadable_batch demo_conn)) 2 =
     Some (demo_row 2 ''Unknown Co'' (Some (9 * ns_per_day)) (Some 91) True) \<and>
   durable (snd (load_to_db 32766 loadable_batch demo_conn)) 3 =
     Some (demo_row 3 ''Shell'' None None False) \<and>
   durable (snd (load_to_db 32766 loadable_batch demo_conn)) 9 = txn demo_conn 9"
proof -
  have clean: "txn demo_conn = durable demo_conn"
    by (simp add: demo_conn_def)
  have failed: "fst (load_to_db 32766 demo_out demo_conn) = Inl OperationalError"
    by (simp add: load_to_db_cases demo_out_def station_columns_def table_columns_def)
  obtain e c' where r: "load_to_db 32766 demo_out demo_conn = (Inl e, c')"
    using failed by (cases "load_to_db 32766 demo_out demo_conn") auto
  from load_is_atomic[where mv = 32766 and df = demo_out and c = demo_conn] r clean have "c' = demo_conn"
    by simp
  with r failed have a: "load_to_db 32766 demo_out demo_conn = (Inl OperationalError, demo_conn)"
    by simp
  have nine: "(9::int) \<notin> id' ` set (rows loadable_batch)"
    by (simp add: loadable_batch_facts(3) demo_row_def)
  obtain c2 where r2: "load_to_db 32766 loadable_batch demo_conn = (Inr (), c2)"
    by (simp add: demo_load)
  from load_is_atomic[where mv = 32766 and df = loadable_batch and c = demo_conn] nine
  have b: "durable (snd (load_to_db 32766 loadable_batch demo_conn)) =
             txn (snd (load_to_db 32766 loadable_batch demo_conn))"
    "\<forall>r \<in> set (rows loadable_batch).
        durable (snd (load_to_db 32766 loadable_batch demo_conn)) (id' r) = Some r"
    "durable (snd (load_to_db 32766 loadable_batch demo_conn)) 9 = txn demo_conn 9"
    by (auto simp: r2)
  from b(2) have rows:
    "durable (snd (load_to_db 32766 loadable_batch demo_conn)) 1 =
       Some (demo_row 1 ''Tesla BP Supercharger'' (Some (10 * ns_per_day)) (Some 90) False)"
    "durable (snd (load_to_db 32766 loadable_batch demo_conn)) 2 =
       Some (demo_row 2 ''Unknown Co'' (Some (9 * ns_per_day)) (Some 91) True)"
    "durable (snd (load_to_db 32766 loadable_batch demo_conn)) 3 =
       Some (demo_row 3 ''Shell'' None None False)"
    by (simp_all add: loadable_batch_facts(3) demo_row_def)
  from a b(1,3) rows show ?thesis
    by (simp add: demo_load)
qed

theorem load_of_no_rows_witness:
  "rows empty_batch = [] \<and>
   load_to_db 32766 empty_batch demo_conn = (Inr (), commit demo_conn) \<and>
   commit demo_conn = demo_conn \<and>
   rows (empty_batch\<lparr>columns := []\<rparr>) = [] \<and>
   load_to_db 32766 (empty_batch\<lparr>columns := []\<rparr>) demo_conn = (Inl (KeyError ''id''), demo_conn)"
proof -
  have e: "rows empty_batch = []" "rows (empty_batch\<lparr>columns := []\<rparr>) = []"
    by (simp_all add: empty_batch_def)
  have k: "''id'' \<in> set (columns empty_batch)"
    "''id'' \<notin> set (columns (empty_batch\<lparr>columns := []\<rparr>))"
    by (simp_all add: empty_batch_def table_columns_def)
  have c: "commit demo_conn = demo_conn"
    by (simp add: commit_def demo_conn_def)
  from load_of_no_rows[where mv = 32766 and c = demo_conn, OF e(1)]
    load_of_no_rows[where mv = 32766 and c = demo_conn, OF e(2)] e k c
  show ?thesis by simp
qed

end
